theory Spec2Isabelle
  imports Complex_Main "HOL-Library.AList"
begin

section \<open>JavaScript values and plain objects\<close>

text \<open>
  The wrapper class \<^verbatim>\<open>Map\<close> of \<^verbatim>\<open>src/scripts/utils/map.js\<close> receives
  dynamically typed arguments. \<open>jsval\<close> covers the values the argument checks of the
  class distinguish. An object is given by its own enumerable properties in the order
  of their enumeration; an array is the object whose keys are its indices.
\<close>

datatype jsval =
    JUndefined
  | JNull
  | JBool bool
  | JNum real
  | JNaN
  | JBigInt int
  | JStr string
  | JSymbol string
  | JFun string
  | JObj "(string \<times> jsval) list"

text \<open>The operator \<^verbatim>\<open>typeof\<close>; \<^verbatim>\<open>typeof null\<close> is \<^verbatim>\<open>'object'\<close>.\<close>

fun typeof :: "jsval \<Rightarrow> string" where
  "typeof JUndefined = ''undefined''"
| "typeof JNull = ''object''"
| "typeof (JBool b) = ''boolean''"
| "typeof (JNum r) = ''number''"
| "typeof JNaN = ''number''"
| "typeof (JBigInt i) = ''bigint''"
| "typeof (JStr s) = ''string''"
| "typeof (JSymbol d) = ''symbol''"
| "typeof (JFun f) = ''function''"
| "typeof (JObj ps) = ''object''"

text \<open>Conversion to a boolean, as \<^verbatim>\<open>if (v)\<close> and \<^verbatim>\<open>!v\<close> perform it.\<close>

fun truthy :: "jsval \<Rightarrow> bool" where
  "truthy JUndefined = False"
| "truthy JNull = False"
| "truthy (JBool b) = b"
| "truthy (JNum r) = (r \<noteq> 0)"
| "truthy JNaN = False"
| "truthy (JBigInt i) = (i \<noteq> 0)"
| "truthy (JStr s) = (s \<noteq> [])"
| "truthy (JSymbol d) = True"
| "truthy (JFun f) = True"
| "truthy (JObj ps) = True"

text \<open>A structured object: an object or array, as opposed to a primitive, a function or \<^verbatim>\<open>null\<close>.\<close>

fun is_object :: "jsval \<Rightarrow> bool" where
  "is_object (JObj ps) = True"
| "is_object v = False"

text \<open>
  The members every plain object inherits from \<^verbatim>\<open>Object.prototype\<close>. All of them are
  functions, hence truthy. The accessor \<^verbatim>\<open>__proto__\<close> is treated apart.
\<close>

definition object_prototype_names :: "string list" where
  "object_prototype_names =
     [''constructor'', ''hasOwnProperty'', ''isPrototypeOf'', ''propertyIsEnumerable'',
      ''toLocaleString'', ''toString'', ''valueOf'', ''__defineGetter__'',
      ''__defineSetter__'', ''__lookupGetter__'', ''__lookupSetter__'']"

text \<open>\<^verbatim>\<open>key in v\<close> for an object \<open>v\<close>: own and inherited properties.\<close>

fun has_property :: "string \<Rightarrow> jsval \<Rightarrow> bool" where
  "has_property k (JObj ps) =
     (k \<in> fst ` set ps \<or> k \<in> set object_prototype_names \<or> k = ''__proto__'')"
| "has_property k v = False"

text \<open>\<^verbatim>\<open>v.key\<close> for a key that \<^verbatim>\<open>Object.prototype\<close> does not define.\<close>

fun get_property :: "jsval \<Rightarrow> string \<Rightarrow> jsval" where
  "get_property (JObj ps) k = (case map_of ps k of Some v \<Rightarrow> v | None \<Rightarrow> JUndefined)"
| "get_property v k = JUndefined"

text \<open>The decimal numeral of an index, as the key of an array element or a character.\<close>

fun index_key :: "nat \<Rightarrow> string" where
  "index_key n =
     (if n < 10 then [char_of (48 + n)]
      else index_key (n div 10) @ [char_of (48 + n mod 10)])"

declare index_key.simps [simp del]

text \<open>
  The properties that \<^verbatim>\<open>{...v}\<close> copies: the own properties of an object, the
  characters of a string under their indices, and nothing for any other value.
\<close>

fun own_props :: "jsval \<Rightarrow> (string \<times> jsval) list" where
  "own_props (JObj ps) = ps"
| "own_props (JStr s) = map (\<lambda>(i, ch). (index_key i, JStr [ch])) (enumerate 0 s)"
| "own_props v = []"

text \<open>
  The order in which the properties of an object are enumerated: first the keys that
  are array indices (decimal numerals without a leading zero, below 4294967295) in
  ascending order, then every other key in the order of its creation.
\<close>

definition digit :: "char \<Rightarrow> bool" where
  "digit c = (48 \<le> (of_char c :: int) \<and> (of_char c :: int) \<le> 57)"

definition decimal_value :: "string \<Rightarrow> int" where
  "decimal_value k = foldl (\<lambda>a c. 10 * a + (of_char c - 48)) 0 k"

definition array_index :: "string \<Rightarrow> int option" where
  "array_index k =
     (if k \<noteq> [] \<and> list_all digit k \<and> (k = ''0'' \<or> hd k \<noteq> CHR ''0'') \<and>
         decimal_value k < 4294967295
      then Some (decimal_value k) else None)"

definition property_order :: "(string \<times> 'v) list \<Rightarrow> (string \<times> 'v) list" where
  "property_order ps =
     sort_key (\<lambda>p. the (array_index (fst p))) (filter (\<lambda>p. array_index (fst p) \<noteq> None) ps) @
     filter (\<lambda>p. array_index (fst p) = None) ps"

text \<open>
  \<^verbatim>\<open>{...base, ...extra}\<close>: a later property replaces the value of an earlier one of
  the same name and keeps its place, a new name is created after the others; the
  result is enumerated in the order above.
\<close>

definition spread :: "(string \<times> 'v) list \<Rightarrow> (string \<times> 'v) list \<Rightarrow> (string \<times> 'v) list" where
  "spread base extra = property_order (fold (\<lambda>(k, v). AList.update k v) extra base)"

section \<open>The rendering engine: layers, controls and the map handle\<close>

text \<open>
  The class delegates to the Leaflet library. A factory of the library returns a new
  object. \<open>layer\<close> is what a layer object was constructed from; \<open>layer_object\<close> further
  below is the object itself, with its identity.
\<close>

type_synonym latlng = "real \<times> real"

datatype icon = Icon "(string \<times> jsval) list"

datatype popup = Popup "(string \<times> jsval) list"

text \<open>A marker option is an engine object made by the class or a value of the caller.\<close>

datatype optval = Engine icon | Plain jsval

datatype layer =
    TileLayer string "(string \<times> jsval) list"
  | LayerGroup "layer list"
  | Marker latlng "(string \<times> optval) list" "popup option"

definition tileLayer :: "string \<Rightarrow> (string \<times> jsval) list \<Rightarrow> layer" where
  "tileLayer urlTemplate options = TileLayer urlTemplate options"

definition layerGroup :: "layer list \<Rightarrow> layer" where
  "layerGroup layers = LayerGroup layers"

definition marker :: "latlng \<Rightarrow> (string \<times> optval) list \<Rightarrow> layer" where
  "marker coordinates options = Marker coordinates options None"

fun bindPopup :: "layer \<Rightarrow> popup \<Rightarrow> layer" where
  "bindPopup (Marker c options p) newPopup = Marker c options (Some newPopup)"
| "bindPopup l newPopup = l"

text \<open>The tile layers a layer consists of: itself, or the members of a group.\<close>

fun tile_layers :: "layer \<Rightarrow> (string \<times> (string \<times> jsval) list) list" where
  "tile_layers (TileLayer u options) = [(u, options)]"
| "tile_layers (LayerGroup ls) = concat (map tile_layers ls)"
| "tile_layers (Marker c options p) = []"

text \<open>
  A layer object: its identity, what it was constructed from, and for a group the
  objects that are its members. \<open>Made n\<close> is the \<open>n\<close>-th layer object that the instance at
  hand has made; \<open>Given n\<close> is an object made by its caller. Two objects are the same
  object when their identities are equal.
\<close>

datatype object_id = Made nat | Given nat

datatype layer_object =
  LayerObject (oid: object_id) (descr: layer) (members: "layer_object list")

text \<open>
  The objects that the construction of a layer makes, numbered from \<open>n\<close> in the order
  of their creation: the members of a group are made before the group.
\<close>

fun object_count :: "layer \<Rightarrow> nat" where
  "object_count (LayerGroup ls) = Suc (sum_list (map object_count ls))"
| "object_count l = 1"

fun new_object :: "nat \<Rightarrow> layer \<Rightarrow> layer_object"
  and new_objects :: "nat \<Rightarrow> layer list \<Rightarrow> layer_object list" where
  "new_object n (LayerGroup ls) =
     LayerObject (Made (n + sum_list (map object_count ls))) (LayerGroup ls) (new_objects n ls)"
| "new_object n (TileLayer u options) = LayerObject (Made n) (TileLayer u options) []"
| "new_object n (Marker c options p) = LayerObject (Made n) (Marker c options p) []"
| "new_objects n [] = []"
| "new_objects n (l # ls) = new_object n l # new_objects (n + object_count l) ls"

text \<open>
  The options object handed to the engine's map factory, and the configuration object
  of the caller. A field that is \<open>None\<close> in the configuration is a property the caller
  did not set. The recognised options carry the types the interface documents; every
  other option is kept as it came.
\<close>

record config =
  cfg_center :: "latlng option"
  cfg_locate :: "bool option"
  cfg_zoom :: "int option"
  cfg_mapTilerKey :: "string option"
  cfg_scrollWheelZoom :: "bool option"
  cfg_layers :: "layer_object list option"
  cfg_other :: "(string \<times> jsval) list"

definition empty_config :: config where
  "empty_config =
     \<lparr>cfg_center = None, cfg_locate = None, cfg_zoom = None, cfg_mapTilerKey = None,
      cfg_scrollWheelZoom = None, cfg_layers = None, cfg_other = []\<rparr>"

record engine_options =
  eo_zoom :: int
  eo_scrollWheelZoom :: bool
  eo_layers :: "layer_object list"
  eo_center :: "latlng option"
  eo_locate :: "bool option"
  eo_mapTilerKey :: "string option"
  eo_other :: "(string \<times> jsval) list"

text \<open>
  The map handle. Only what the class reads or writes is kept: the view last
  requested, and the layer objects on the map. Zoom limits and the rounding of
  coordinates by the engine are outside the model.
\<close>

record leaflet_map =
  lm_container :: string
  lm_options :: engine_options
  lm_center :: "latlng option"
  lm_zoom :: int
  lm_layers :: "layer_object list"

text \<open>
  The engine's \<^verbatim>\<open>addLayer\<close> and \<^verbatim>\<open>removeLayer\<close>, on the list of the objects on the
  map. An object that is on the map already is not added again; otherwise it is put
  on the map and, when it is a group, so are its members. An object that is not on the
  map is not removed; otherwise the members of a group are removed and then the object
  itself. The engine hands a group's members on in this way once the map has a view.
\<close>

fun add_to :: "layer_object \<Rightarrow> layer_object list \<Rightarrow> layer_object list" where
  "add_to (LayerObject i d ms) ls =
     (if i \<in> oid ` set ls then ls else fold add_to ms (ls @ [LayerObject i d ms]))"

fun remove_from :: "layer_object \<Rightarrow> layer_object list \<Rightarrow> layer_object list" where
  "remove_from (LayerObject i d ms) ls =
     (if i \<in> oid ` set ls then filter (\<lambda>x. oid x \<noteq> i) (fold remove_from ms ls) else ls)"

definition addLayer :: "layer_object \<Rightarrow> leaflet_map \<Rightarrow> leaflet_map" where
  "addLayer l m = m\<lparr>lm_layers := add_to l (lm_layers m)\<rparr>"

definition removeLayer :: "layer_object \<Rightarrow> leaflet_map \<Rightarrow> leaflet_map" where
  "removeLayer l m = m\<lparr>lm_layers := remove_from l (lm_layers m)\<rparr>"

definition createMap :: "string \<Rightarrow> engine_options \<Rightarrow> leaflet_map" where
  "createMap container options =
     fold addLayer (eo_layers options)
       \<lparr>lm_container = container, lm_options = options, lm_center = eo_center options,
        lm_zoom = eo_zoom options, lm_layers = []\<rparr>"

definition latLng :: "latlng \<Rightarrow> latlng" where
  "latLng coordinate = (fst coordinate, snd coordinate)"

definition setView :: "latlng \<Rightarrow> int \<Rightarrow> leaflet_map \<Rightarrow> leaflet_map" where
  "setView c z m = m\<lparr>lm_center := Some c, lm_zoom := z\<rparr>"

text \<open>
  The layer-switcher control. Every call of the factory makes a new object: \<open>ctl_id\<close>
  numbers the controls of one instance in the order of their creation.
\<close>

record control =
  ctl_id :: nat
  ctl_entries :: "(string \<times> layer_object \<times> bool) list"
  ctl_on_map :: bool

definition control_layers ::
  "(string \<times> layer_object) list \<Rightarrow> (string \<times> layer_object) list \<Rightarrow> nat \<Rightarrow> control" where
  "control_layers base over n =
     \<lparr>ctl_id = n,
      ctl_entries = map (\<lambda>(name, l). (name, l, False)) base @ map (\<lambda>(name, l). (name, l, True)) over,
      ctl_on_map = False\<rparr>"

definition addTo :: "control \<Rightarrow> control" where
  "addTo c = c\<lparr>ctl_on_map := True\<rparr>"

definition remove_control :: "control \<Rightarrow> control" where
  "remove_control c = c\<lparr>ctl_on_map := False\<rparr>"

definition addOverlay :: "layer_object \<Rightarrow> string \<Rightarrow> control \<Rightarrow> control" where
  "addOverlay l name c = c\<lparr>ctl_entries := ctl_entries c @ [(name, l, True)]\<rparr>"

section \<open>Tile layers\<close>

definition maptiler_attribution :: string where
  \<open>maptiler_attribution =
     ''<a href="https://www.maptiler.com/copyright/" target="_blank">&copy; MapTiler</a>''\<close>

definition maptiler_osm_attribution :: string where
  \<open>maptiler_osm_attribution =
     ''<a href="https://www.maptiler.com/copyright/" target="_blank">&copy; MapTiler</a> <a href="https://www.openstreetmap.org/copyright" target="_blank">&copy; OpenStreetMap contributors</a>''\<close>

definition osmLayer :: layer where
  \<open>osmLayer =
     tileLayer ''https://tile.openstreetmap.org/{z}/{x}/{y}.png''
       [(''attribution'',
         JStr ''&copy; <a href="https://www.openstreetmap.org/copyright" target="_blank">OpenStreetMap</a>'')]\<close>

definition styleMap :: "(string \<times> string) list" where
  "styleMap =
     [(''streets'', ''streets-v2''), (''basic'', ''basic-v2''),
      (''toner'', ''toner-v2''), (''dark'', ''dark-v2'')]"

text \<open>
  The private method \<^verbatim>\<open>#createMapTilerLayer(style)\<close>, with the key field as an
  argument. The constructor is its only caller and passes the six style names below.
\<close>

definition createMapTilerLayer :: "string \<Rightarrow> string \<Rightarrow> layer" where
  "createMapTilerLayer key style =
     (if style = ''satellite'' then
        tileLayer (''https://api.maptiler.com/tiles/satellite/{z}/{x}/{y}.jpg?key='' @ key)
          [(''tileSize'', JNum 512), (''zoomOffset'', JNum (- 1)), (''minZoom'', JNum 1),
           (''attribution'', JStr maptiler_attribution), (''crossOrigin'', JBool True)]
      else if style = ''hybrid'' then
        (let satelliteLayer =
               tileLayer (''https://api.maptiler.com/tiles/satellite/{z}/{x}/{y}.jpg?key='' @ key)
                 [(''tileSize'', JNum 512), (''zoomOffset'', JNum (- 1)), (''minZoom'', JNum 1)];
             labelsLayer =
               tileLayer (''https://api.maptiler.com/maps/streets-v2/overlay/{z}/{x}/{y}.png?key='' @ key)
                 [(''tileSize'', JNum 512), (''zoomOffset'', JNum (- 1)), (''minZoom'', JNum 1),
                  (''attribution'', JStr maptiler_osm_attribution)]
         in layerGroup [satelliteLayer, labelsLayer])
      else
        (let actualStyle = (case map_of styleMap style of Some s \<Rightarrow> s | None \<Rightarrow> style)
         in tileLayer (''https://api.maptiler.com/maps/'' @ actualStyle @ ''/{z}/{x}/{y}.png?key='' @ key)
              [(''tileSize'', JNum 512), (''zoomOffset'', JNum (- 1)), (''minZoom'', JNum 1),
               (''attribution'', JStr maptiler_osm_attribution), (''crossOrigin'', JBool True)]))"

definition styles :: "string list" where
  "styles = [''streets'', ''satellite'', ''hybrid'', ''basic'', ''toner'', ''dark'']"

text \<open>The fixed rendering parameters of a tile layer of the provider.\<close>

definition fixed_parameters :: "string \<times> (string \<times> jsval) list \<Rightarrow> bool" where
  "fixed_parameters t =
     (map_of (snd t) ''tileSize'' = Some (JNum 512) \<and>
      map_of (snd t) ''zoomOffset'' = Some (JNum (- 1)) \<and>
      map_of (snd t) ''minZoom'' = Some (JNum 1))"

section \<open>The instance and its constructor\<close>

text \<open>
  The private fields of an instance. \<open>overlays\<close> holds the own properties of the
  overlay object and \<open>overlays_proto\<close> its prototype: \<open>None\<close> is
  \<^verbatim>\<open>Object.prototype\<close>, which the object literal \<^verbatim>\<open>{}\<close> starts with.
  \<open>controls_created\<close> counts the layer-switcher controls and \<open>layers_created\<close> the
  layer objects that the instance has made so far.
\<close>

record MapView =
  zoom :: int
  map_handle :: leaflet_map
  baseLayers :: "(string \<times> layer_object) list"
  overlays :: "(string \<times> layer_object) list"
  overlays_proto :: "layer_object option"
  layerControl :: control
  mapTilerKey :: string
  controls_created :: nat
  layers_created :: nat

text \<open>The field initialisers \<^verbatim>\<open>#zoom = 5\<close> and \<^verbatim>\<open>#mapTilerKey = '...'\<close>.\<close>

definition initial_zoom :: int where
  "initial_zoom = 5"

definition initial_mapTilerKey :: string where
  "initial_mapTilerKey = ''DgAqexwFefbHfJBEtOke''"

text \<open>\<^verbatim>\<open>this.#zoom = options.zoom ?? this.#zoom\<close>\<close>

definition resolve_zoom :: "int \<Rightarrow> config \<Rightarrow> int" where
  "resolve_zoom field options = (case cfg_zoom options of Some z \<Rightarrow> z | None \<Rightarrow> field)"

text \<open>\<^verbatim>\<open>if (options.mapTilerKey) { this.#mapTilerKey = options.mapTilerKey; }\<close>\<close>

definition resolve_key :: "string \<Rightarrow> config \<Rightarrow> string" where
  "resolve_key field options =
     (case cfg_mapTilerKey options of
        Some k \<Rightarrow> if truthy (JStr k) then k else field
      | None \<Rightarrow> field)"

text \<open>
  The layer objects the constructor makes, in the order of their creation: the
  OpenStreetMap layer is object 0, streets 1, satellite 2, the two members of the
  hybrid group 3 and 4, the group 5, basic 6, toner 7 and dark 8.
\<close>

definition osmLayer_object :: layer_object where
  "osmLayer_object = new_object 0 osmLayer"

definition streetsLayer :: "string \<Rightarrow> layer_object" where
  "streetsLayer key = new_object 1 (createMapTilerLayer key ''streets'')"

definition satelliteLayer :: "string \<Rightarrow> layer_object" where
  "satelliteLayer key = new_object 2 (createMapTilerLayer key ''satellite'')"

definition hybridLayer :: "string \<Rightarrow> layer_object" where
  "hybridLayer key = new_object 3 (createMapTilerLayer key ''hybrid'')"

definition basicLayer :: "string \<Rightarrow> layer_object" where
  "basicLayer key = new_object 6 (createMapTilerLayer key ''basic'')"

definition tonerLayer :: "string \<Rightarrow> layer_object" where
  "tonerLayer key = new_object 7 (createMapTilerLayer key ''toner'')"

definition darkLayer :: "string \<Rightarrow> layer_object" where
  "darkLayer key = new_object 8 (createMapTilerLayer key ''dark'')"

text \<open>\<^verbatim>\<open>const defaultLayer = this.#mapTilerKey ? streetsLayer : osmLayer\<close>\<close>

definition defaultLayer :: "string \<Rightarrow> layer_object" where
  "defaultLayer key = (if truthy (JStr key) then streetsLayer key else osmLayer_object)"

text \<open>The two assignments to \<^verbatim>\<open>this.#baseLayers\<close>.\<close>

definition base_layers :: "string \<Rightarrow> (string \<times> layer_object) list" where
  "base_layers key =
     (let all_layers =
            [(''Streets'', streetsLayer key),
             (''Satelit'', satelliteLayer key),
             (''Hybrid'', hybridLayer key),
             (''Basic'', basicLayer key),
             (''Toner'', tonerLayer key),
             (''Mode Gelap'', darkLayer key)]
      in if \<not> truthy (JStr key) then [(''OpenStreetMap'', osmLayer_object)] else all_layers)"

text \<open>
  \<^verbatim>\<open>{ zoom: this.#zoom, scrollWheelZoom: true, layers: [defaultLayer], ...options }\<close>:
  the three properties written first are replaced by the properties of the same name
  that the configuration has.
\<close>

definition map_options :: "int \<Rightarrow> layer_object \<Rightarrow> config \<Rightarrow> engine_options" where
  "map_options z l options =
     \<lparr>eo_zoom = (case cfg_zoom options of Some z' \<Rightarrow> z' | None \<Rightarrow> z),
      eo_scrollWheelZoom = (case cfg_scrollWheelZoom options of Some b \<Rightarrow> b | None \<Rightarrow> True),
      eo_layers = (case cfg_layers options of Some ls \<Rightarrow> ls | None \<Rightarrow> [l]),
      eo_center = cfg_center options,
      eo_locate = cfg_locate options,
      eo_mapTilerKey = cfg_mapTilerKey options,
      eo_other = cfg_other options\<rparr>"

text \<open>
  The constructor body, run on an object whose fields \<^verbatim>\<open>#zoom\<close> and
  \<^verbatim>\<open>#mapTilerKey\<close> were initialised to \<open>zoom0\<close> and \<open>key0\<close>.
\<close>

definition constructor :: "int \<Rightarrow> string \<Rightarrow> string \<Rightarrow> config \<Rightarrow> MapView" where
  "constructor zoom0 key0 selector options =
     (let z = resolve_zoom zoom0 options;
          key = resolve_key key0 options;
          base = base_layers key;
          m = createMap selector (map_options z (defaultLayer key) options)
      in \<lparr>zoom = z, map_handle = m, baseLayers = base, overlays = [],
          overlays_proto = None, layerControl = addTo (control_layers base [] 0),
          mapTilerKey = key, controls_created = 1, layers_created = 9\<rparr>)"

text \<open>\<^verbatim>\<open>new Map(selector, options)\<close>\<close>

definition new_Map :: "string \<Rightarrow> config \<Rightarrow> MapView" where
  "new_Map selector options = constructor initial_zoom initial_mapTilerKey selector options"

section \<open>Geolocation and the factory \<^verbatim>\<open>build\<close>\<close>

text \<open>
  What the host answers to a single position query: no geolocation capability, a
  failure, a position, or no answer at all.
\<close>

record coords =
  latitude :: real
  longitude :: real

datatype position_error = PermissionDenied | PositionUnavailable | Timeout

datatype geolocation = Unsupported | HostFails position_error | HostFinds coords | NoAnswer

datatype rejection = Message string | PositionError position_error

datatype 'a promise = Resolved 'a | Rejected rejection | Pending

definition isGeolocationAvailable :: "geolocation \<Rightarrow> bool" where
  "isGeolocationAvailable host = (host \<noteq> Unsupported)"

definition getCurrentPosition :: "geolocation \<Rightarrow> coords promise" where
  "getCurrentPosition host =
     (if \<not> isGeolocationAvailable host then Rejected (Message ''Geolocation API unsupported'')
      else case host of
             HostFinds p \<Rightarrow> Resolved p
           | HostFails e \<Rightarrow> Rejected (PositionError e)
           | _ \<Rightarrow> Pending)"

definition jakartaCoordinate :: latlng where
  "jakartaCoordinate = (- 6.2, 106.816666)"

text \<open>
  \<^verbatim>\<open>static async build(selector, options)\<close>. The result is the promise and the lines
  written with \<^verbatim>\<open>console.error\<close>.
\<close>

definition build :: "geolocation \<Rightarrow> string \<Rightarrow> config \<Rightarrow> MapView promise \<times> (string \<times> rejection) list" where
  "build host selector options =
     (if cfg_center options \<noteq> None then (Resolved (new_Map selector options), [])
      else if cfg_locate options = Some True then
        (case getCurrentPosition host of
           Resolved position \<Rightarrow>
             (Resolved (new_Map selector
                (options\<lparr>cfg_center := Some (latitude position, longitude position)\<rparr>)), [])
         | Rejected error \<Rightarrow>
             (Resolved (new_Map selector (options\<lparr>cfg_center := Some jakartaCoordinate\<rparr>)),
              [(''build: error'', error)])
         | Pending \<Rightarrow> (Pending, []))
      else (Resolved (new_Map selector (options\<lparr>cfg_center := Some jakartaCoordinate\<rparr>)), []))"

section \<open>Camera\<close>

text \<open>
  \<^verbatim>\<open>changeCamera(coordinate, zoomLevel = null)\<close>: \<open>None\<close> is \<^verbatim>\<open>null\<close> or an omitted
  argument. \<^verbatim>\<open>!zoomLevel\<close> holds for \<^verbatim>\<open>null\<close> and for the number 0.
\<close>

definition changeCamera :: "latlng \<Rightarrow> int option \<Rightarrow> MapView \<Rightarrow> MapView" where
  "changeCamera coordinate zoomLevel this =
     (case zoomLevel of
        None \<Rightarrow> this\<lparr>map_handle := setView (latLng coordinate) (zoom this) (map_handle this)\<rparr>
      | Some z \<Rightarrow>
          if \<not> truthy (JNum (of_int z)) then
            this\<lparr>map_handle := setView (latLng coordinate) (zoom this) (map_handle this)\<rparr>
          else this\<lparr>map_handle := setView (latLng coordinate) z (map_handle this)\<rparr>)"

datatype thrown = Thrown string "layer list"

text \<open>
  \<^verbatim>\<open>getCenter()\<close>. The engine throws when no view was ever set.
\<close>

definition getCenter :: "MapView \<Rightarrow> thrown + coords" where
  "getCenter this =
     (case lm_center (map_handle this) of
        None \<Rightarrow> Inl (Thrown ''Set map center and zoom first.'' [])
      | Some c \<Rightarrow> Inr \<lparr>latitude = fst c, longitude = snd c\<rparr>)"

section \<open>Markers\<close>

text \<open>
  The three image files the module imports, and \<^verbatim>\<open>createIcon(options = {})\<close>. The
  engine's \<^verbatim>\<open>Icon.Default.prototype.options\<close> is the argument \<open>icon_defaults\<close>.
\<close>

definition markerIcon :: string where
  "markerIcon = ''leaflet/dist/images/marker-icon.png''"

definition markerIcon2x :: string where
  "markerIcon2x = ''leaflet/dist/images/marker-icon-2x.png''"

definition markerShadow :: string where
  "markerShadow = ''leaflet/dist/images/marker-shadow.png''"

definition createIcon :: "(string \<times> jsval) list \<Rightarrow> jsval \<Rightarrow> icon" where
  "createIcon icon_defaults options =
     (let options = (if options = JUndefined then JObj [] else options)
      in Icon (spread
           (spread icon_defaults
              [(''iconRetinaUrl'', JStr markerIcon2x), (''iconUrl'', JStr markerIcon),
               (''shadowUrl'', JStr markerShadow)])
           (own_props options)))"

text \<open>
  \<^verbatim>\<open>addMarker(coordinates, markerOptions = {}, popupOptions = null)\<close>. A default value
  replaces an argument that is \<^verbatim>\<open>undefined\<close> only. An error carries its message and
  what the engine objects were constructed from that were made before it was thrown.
  \<open>newMarker\<close> is the marker as the call of the factory \<^verbatim>\<open>marker\<close> makes it, before a
  popup is bound. The marker that is returned is a new layer object of the instance.
\<close>

definition newMarker :: "(string \<times> jsval) list \<Rightarrow> latlng \<Rightarrow> jsval \<Rightarrow> layer" where
  "newMarker icon_defaults coordinates markerOptions =
     marker coordinates
       (spread [(''icon'', Engine (createIcon icon_defaults JUndefined))]
          (map (\<lambda>(k, v). (k, Plain v)) (own_props markerOptions)))"

text \<open>
  \<^verbatim>\<open>newMarker.addTo(this.#map); return newMarker\<close> for the marker object that was
  constructed as \<open>m\<close>.
\<close>

definition added_marker :: "layer \<Rightarrow> MapView \<Rightarrow> layer_object \<times> MapView" where
  "added_marker m this =
     (LayerObject (Made (layers_created this)) m [],
      this\<lparr>map_handle := addLayer (LayerObject (Made (layers_created this)) m []) (map_handle this),
           layers_created := Suc (layers_created this)\<rparr>)"

definition addMarker ::
  "(string \<times> jsval) list \<Rightarrow> latlng \<Rightarrow> jsval \<Rightarrow> jsval \<Rightarrow> MapView \<Rightarrow>
     thrown + layer_object \<times> MapView" where
  "addMarker icon_defaults coordinates markerOptions popupOptions this =
     (let markerOptions = (if markerOptions = JUndefined then JObj [] else markerOptions);
          popupOptions = (if popupOptions = JUndefined then JNull else popupOptions)
      in if typeof markerOptions \<noteq> ''object'' then
           Inl (Thrown ''markerOptions must be an object'' [])
         else
           (let m = newMarker icon_defaults coordinates markerOptions
            in if truthy popupOptions then
                 (if typeof popupOptions \<noteq> ''object'' then
                    Inl (Thrown ''popupOptions must be an object'' [m])
                  else if \<not> has_property ''content'' popupOptions then
                    Inl (Thrown ''popupOptions must include `content` property'' [m])
                  else
                    (let newPopup = Popup [(''content'', get_property popupOptions ''content'')];
                         m = bindPopup m newPopup
                     in Inr (added_marker m this)))
               else Inr (added_marker m this)))"

section \<open>Overlay layers\<close>

text \<open>
  The value of \<^verbatim>\<open>this.#overlays[name]\<close>. The overlay object is a plain object used
  as a dictionary, so a name it does not own is looked up in its prototype. The class
  never creates an own property called \<^verbatim>\<open>__proto__\<close>: reading that name yields the
  prototype, writing it replaces the prototype.
\<close>

datatype overlay_value =
    LayerValue layer_object
  | InheritedFunction string
  | PrototypeObject
  | EngineMember layer_object string
  | NoValue

definition overlays_get :: "MapView \<Rightarrow> string \<Rightarrow> overlay_value" where
  "overlays_get this name =
     (if name = ''__proto__'' then
        (case overlays_proto this of None \<Rightarrow> PrototypeObject | Some l \<Rightarrow> LayerValue l)
      else
        (case map_of (overlays this) name of
           Some l \<Rightarrow> LayerValue l
         | None \<Rightarrow>
             (case overlays_proto this of
                Some l \<Rightarrow> EngineMember l name
              | None \<Rightarrow>
                  if name \<in> set object_prototype_names then InheritedFunction name
                  else NoValue)))"

text \<open>\<^verbatim>\<open>this.#overlays[name] = layer\<close>\<close>

definition overlays_set :: "string \<Rightarrow> layer_object \<Rightarrow> MapView \<Rightarrow> MapView" where
  "overlays_set name l this =
     (if name = ''__proto__'' then this\<lparr>overlays_proto := Some l\<rparr>
      else this\<lparr>overlays := AList.update name l (overlays this)\<rparr>)"

text \<open>\<^verbatim>\<open>addOverlayLayer(name, layer)\<close> returns the layer.\<close>

definition addOverlayLayer :: "string \<Rightarrow> layer_object \<Rightarrow> MapView \<Rightarrow> layer_object \<times> MapView" where
  "addOverlayLayer name l this =
     (let this = overlays_set name l this;
          this = this\<lparr>layerControl := addOverlay l name (layerControl this)\<rparr>
      in (l, this))"

text \<open>
  A call either runs to its end (\<open>Done\<close>, with the instance it leaves), or it does not:
  \<open>Beyond\<close> says that the call reached a step that hands the engine the inherited
  members of the overlay object, where the engine fails or goes on as its internals
  decide, and carries the instance as it is at that step. This happens only once the
  prototype of the overlay object is involved: a member of a layer that serves as
  prototype is read or enumerated, or \<^verbatim>\<open>Object.prototype\<close> itself is passed to the
  engine as a layer.
\<close>

datatype 'a outcome = Done 'a | Beyond 'a

text \<open>The instance a call leaves when it ran to its end, and the one it stopped at otherwise.\<close>

fun completed :: "'a outcome \<Rightarrow> 'a option" where
  "completed (Done s) = Some s"
| "completed (Beyond s) = None"

fun stopped_at :: "'a outcome \<Rightarrow> 'a option" where
  "stopped_at (Done s) = None"
| "stopped_at (Beyond s) = Some s"

text \<open>
  \<^verbatim>\<open>this.#map.removeLayer(v)\<close> for the value found under the name. Handed an object
  that is not one of its layers, the engine leaves its layers as they are.
\<close>

fun removeLayer_value :: "overlay_value \<Rightarrow> leaflet_map \<Rightarrow> leaflet_map" where
  "removeLayer_value (LayerValue l) m = removeLayer l m"
| "removeLayer_value v m = m"

text \<open>
  \<^verbatim>\<open>this.#layerControl.remove()\<close> and the assignment of a new control made from the
  two objects.
\<close>

definition rebuild_control :: "MapView \<Rightarrow> MapView outcome" where
  "rebuild_control this =
     (let this = this\<lparr>layerControl := remove_control (layerControl this)\<rparr>
      in if overlays_proto this \<noteq> None then Beyond this
         else Done (this\<lparr>layerControl :=
                            addTo (control_layers (baseLayers this) (overlays this)
                                     (controls_created this)),
                          controls_created := Suc (controls_created this)\<rparr>))"

text \<open>\<^verbatim>\<open>removeOverlayLayer(name)\<close>: the block runs when the value found is truthy.\<close>

definition removeOverlayLayer :: "string \<Rightarrow> MapView \<Rightarrow> MapView outcome" where
  "removeOverlayLayer name this =
     (case overlays_get this name of
        NoValue \<Rightarrow> Done this
      | EngineMember l k \<Rightarrow> Beyond this
      | PrototypeObject \<Rightarrow> Beyond this
      | v \<Rightarrow>
          (let this = this\<lparr>map_handle := removeLayer_value v (map_handle this)\<rparr>;
               this = this\<lparr>overlays := AList.delete name (overlays this)\<rparr>
           in rebuild_control this))"

section \<open>Tile layer construction\<close>

lemma raster_style:
  "s \<in> set [''streets'', ''basic'', ''toner'', ''dark''] \<Longrightarrow>
   createMapTilerLayer key s =
     TileLayer (''https://api.maptiler.com/maps/'' @ s @ ''-v2/{z}/{x}/{y}.png?key='' @ key)
       [(''tileSize'', JNum 512), (''zoomOffset'', JNum (- 1)), (''minZoom'', JNum 1),
        (''attribution'', JStr maptiler_osm_attribution), (''crossOrigin'', JBool True)]"
  by (auto simp: createMapTilerLayer_def styleMap_def tileLayer_def)

lemma fixed_parameters_styles:
  "s \<in> set styles \<Longrightarrow> list_all fixed_parameters (tile_layers (createMapTilerLayer key s))"
  by (auto simp: createMapTilerLayer_def styleMap_def tileLayer_def styles_def
      fixed_parameters_def layerGroup_def)

text \<open>
  Claim C9. The layer of a style is a function of the style and the key. For streets,
  basic, toner and dark it is one raster layer whose URL template is
  \<^verbatim>\<open>https://api.maptiler.com/maps/<style>-v2/{z}/{x}/{y}.png?key=<key>\<close>; for satellite
  it is one raster layer of \<^verbatim>\<open>.jpg\<close> tiles; for hybrid it is a group of a satellite
  layer and the labels overlay. For each of the six styles every tile layer of the
  result has tile size 512, zoom offset -1 and minimum zoom 1.
\<close>

theorem tile_layer_templates:
  "(s \<in> set [''streets'', ''basic'', ''toner'', ''dark''] \<longrightarrow>
      (\<exists>options. createMapTilerLayer key s =
         TileLayer (''https://api.maptiler.com/maps/'' @ s @ ''-v2/{z}/{x}/{y}.png?key='' @ key) options)) \<and>
   (\<exists>options. createMapTilerLayer key ''satellite'' =
      TileLayer (''https://api.maptiler.com/tiles/satellite/{z}/{x}/{y}.jpg?key='' @ key) options) \<and>
   (\<exists>options options'. createMapTilerLayer key ''hybrid'' =
      LayerGroup
        [TileLayer (''https://api.maptiler.com/tiles/satellite/{z}/{x}/{y}.jpg?key='' @ key) options,
         TileLayer (''https://api.maptiler.com/maps/streets-v2/overlay/{z}/{x}/{y}.png?key='' @ key) options']) \<and>
   (s \<in> set styles \<longrightarrow>
      tile_layers (createMapTilerLayer key s) \<noteq> [] \<and>
      list_all fixed_parameters (tile_layers (createMapTilerLayer key s)))"
proof (intro conjI impI)
  assume "s \<in> set [''streets'', ''basic'', ''toner'', ''dark'']"
  then show "\<exists>options. createMapTilerLayer key s =
         TileLayer (''https://api.maptiler.com/maps/'' @ s @ ''-v2/{z}/{x}/{y}.png?key='' @ key) options"
    using raster_style by blast
next
  show "\<exists>options. createMapTilerLayer key ''satellite'' =
      TileLayer (''https://api.maptiler.com/tiles/satellite/{z}/{x}/{y}.jpg?key='' @ key) options"
    by (simp add: createMapTilerLayer_def tileLayer_def)
next
  show "\<exists>options options'. createMapTilerLayer key ''hybrid'' =
      LayerGroup
        [TileLayer (''https://api.maptiler.com/tiles/satellite/{z}/{x}/{y}.jpg?key='' @ key) options,
         TileLayer (''https://api.maptiler.com/maps/streets-v2/overlay/{z}/{x}/{y}.png?key='' @ key) options']"
    by (simp add: createMapTilerLayer_def tileLayer_def layerGroup_def)
next
  assume s: "s \<in> set styles"
  then show "tile_layers (createMapTilerLayer key s) \<noteq> []"
    by (auto simp: createMapTilerLayer_def styleMap_def tileLayer_def styles_def layerGroup_def)
  from s show "list_all fixed_parameters (tile_layers (createMapTilerLayer key s))"
    by (rule fixed_parameters_styles)
qed

theorem tile_layer_templates_witness:
  "(\<exists>options. createMapTilerLayer ''K'' ''toner'' =
      TileLayer ''https://api.maptiler.com/maps/toner-v2/{z}/{x}/{y}.png?key=K'' options) \<and>
   list_all fixed_parameters (tile_layers (createMapTilerLayer ''K'' ''hybrid''))"
proof -
  have a: "''toner'' \<in> set [''streets'', ''basic'', ''toner'', ''dark'']" by simp
  have b: "''hybrid'' \<in> set styles" by (simp add: styles_def)
  from tile_layer_templates [of "''toner''" "''K''"] a
  have "\<exists>options. createMapTilerLayer ''K'' ''toner'' =
      TileLayer (''https://api.maptiler.com/maps/'' @ ''toner'' @ ''-v2/{z}/{x}/{y}.png?key='' @ ''K'') options"
    by blast
  moreover from tile_layer_templates [of "''hybrid''" "''K''"] b
  have "list_all fixed_parameters (tile_layers (createMapTilerLayer ''K'' ''hybrid''))"
    by blast
  ultimately show ?thesis by simp
qed

section \<open>The key and the base layers\<close>

lemma resolve_key_nonempty: "k0 \<noteq> [] \<Longrightarrow> resolve_key k0 options \<noteq> []"
  by (simp add: resolve_key_def split: option.splits)

lemma mapTilerKey_constructor:
  "mapTilerKey (constructor z0 k0 sel options) = resolve_key k0 options"
  by (simp add: constructor_def Let_def)

lemma baseLayers_constructor:
  "baseLayers (constructor z0 k0 sel options) = base_layers (resolve_key k0 options)"
  by (simp add: constructor_def Let_def)

lemma layerControl_constructor:
  "layerControl (constructor z0 k0 sel options) =
     addTo (control_layers (base_layers (resolve_key k0 options)) [] 0)"
  by (simp add: constructor_def Let_def)

lemma fold_addLayer_center: "lm_center (fold addLayer ls m) = lm_center m"
  by (induction ls arbitrary: m) (simp_all add: addLayer_def)

lemma fold_addLayer_options: "lm_options (fold addLayer ls m) = lm_options m"
  by (induction ls arbitrary: m) (simp_all add: addLayer_def)

lemma fold_addLayer_layers: "lm_layers (fold addLayer ls m) = fold add_to ls (lm_layers m)"
  by (induction ls arbitrary: m) (simp_all add: addLayer_def)

lemma center_new_Map: "lm_center (map_handle (new_Map sel options)) = cfg_center options"
  by (simp add: new_Map_def constructor_def Let_def createMap_def fold_addLayer_center
      map_options_def)

lemma options_new_Map:
  "lm_options (map_handle (new_Map sel options)) =
     map_options (resolve_zoom initial_zoom options)
       (defaultLayer (resolve_key initial_mapTilerKey options)) options"
  by (simp add: new_Map_def constructor_def Let_def createMap_def fold_addLayer_options)

lemma layers_new_Map:
  "lm_layers (map_handle (new_Map sel options)) =
     fold add_to (eo_layers (lm_options (map_handle (new_Map sel options)))) []"
  by (simp add: new_Map_def constructor_def Let_def createMap_def fold_addLayer_layers
      fold_addLayer_options)

lemma mapTilerKey_new_Map:
  "mapTilerKey (new_Map sel options) = resolve_key initial_mapTilerKey options"
  by (simp add: new_Map_def mapTilerKey_constructor)

lemma baseLayers_new_Map:
  "baseLayers (new_Map sel options) = base_layers (resolve_key initial_mapTilerKey options)"
  by (simp add: new_Map_def baseLayers_constructor)

lemma layerControl_new_Map:
  "layerControl (new_Map sel options) =
     addTo (control_layers (base_layers (resolve_key initial_mapTilerKey options)) [] 0)"
  by (simp add: new_Map_def layerControl_constructor)

lemma zoom_new_Map: "zoom (new_Map sel options) = resolve_zoom initial_zoom options"
  by (simp add: new_Map_def constructor_def Let_def)

lemma layers_created_new_Map: "layers_created (new_Map sel options) = 9"
  by (simp add: new_Map_def constructor_def Let_def)

lemma key_new_Map_nonempty: "resolve_key initial_mapTilerKey options \<noteq> []"
  by (rule resolve_key_nonempty) (simp add: initial_mapTilerKey_def)

lemma descr_new_object: "descr (new_object n d) = d"
  by (cases d) simp_all

lemma streetsLayer_object:
  "streetsLayer key = LayerObject (Made 1) (createMapTilerLayer key ''streets'') []"
  using raster_style [of "''streets''" key] by (simp add: streetsLayer_def)

lemma base_layers_keyed:
  "key \<noteq> [] \<Longrightarrow>
   base_layers key =
     [(''Streets'', streetsLayer key), (''Satelit'', satelliteLayer key),
      (''Hybrid'', hybridLayer key), (''Basic'', basicLayer key),
      (''Toner'', tonerLayer key), (''Mode Gelap'', darkLayer key)]"
  by (simp add: base_layers_def)

lemma base_layer_identities:
  "map oid [streetsLayer key, satelliteLayer key, hybridLayer key, basicLayer key,
            tonerLayer key, darkLayer key] =
     [Made 1, Made 2, Made 5, Made 6, Made 7, Made 8]"
  using raster_style [of "''streets''" key] raster_style [of "''basic''" key]
    raster_style [of "''toner''" key] raster_style [of "''dark''" key]
  by (simp add: streetsLayer_def satelliteLayer_def hybridLayer_def basicLayer_def
      tonerLayer_def darkLayer_def)
    (simp add: createMapTilerLayer_def tileLayer_def layerGroup_def)

lemma layers_new_Map_default:
  assumes "cfg_layers options = None"
  shows "lm_layers (map_handle (new_Map sel options)) =
           [streetsLayer (mapTilerKey (new_Map sel options))]"
  using assms key_new_Map_nonempty [of options]
  by (simp add: layers_new_Map options_new_Map map_options_def defaultLayer_def
      mapTilerKey_new_Map streetsLayer_object)

lemma layers_new_Map_caller:
  assumes "cfg_layers options = Some ls"
  shows "lm_layers (map_handle (new_Map sel options)) = fold add_to ls []"
  using assms by (simp add: layers_new_Map options_new_Map map_options_def)

text \<open>
  A configuration that supplies no key and has a \<^verbatim>\<open>layers\<close> property of its own, here
  one empty layer group made by the caller: the base-layer mapping has six entries,
  and the group is the only layer on the map, so the streets layer is not active.
\<close>

theorem caller_layers_are_the_active_layers:
  "cfg_mapTilerKey (empty_config\<lparr>cfg_layers := Some [LayerObject (Given 0) (LayerGroup []) []]\<rparr>) = None \<and>
   length (baseLayers (new_Map ''#map''
     (empty_config\<lparr>cfg_layers := Some [LayerObject (Given 0) (LayerGroup []) []]\<rparr>))) = 6 \<and>
   lm_layers (map_handle (new_Map ''#map''
     (empty_config\<lparr>cfg_layers := Some [LayerObject (Given 0) (LayerGroup []) []]\<rparr>))) =
     [LayerObject (Given 0) (LayerGroup []) []] \<and>
   streetsLayer (mapTilerKey (new_Map ''#map''
     (empty_config\<lparr>cfg_layers := Some [LayerObject (Given 0) (LayerGroup []) []]\<rparr>))) \<notin>
     set (lm_layers (map_handle (new_Map ''#map''
       (empty_config\<lparr>cfg_layers := Some [LayerObject (Given 0) (LayerGroup []) []]\<rparr>))))"
  using key_new_Map_nonempty
    [of "empty_config\<lparr>cfg_layers := Some [LayerObject (Given 0) (LayerGroup []) []]\<rparr>"]
  by (simp add: layers_new_Map_caller baseLayers_new_Map base_layers_keyed streetsLayer_object
      empty_config_def)

text \<open>
  Claim C1, amended. For every instance the class makes, whether or not the
  configuration supplies a key: the base-layer mapping has exactly the six entries
  Streets, Satelit, Hybrid, Basic, Toner and Mode Gelap, which are six different layer
  objects built for the styles streets, satellite, hybrid, basic, toner and dark, and
  the layer-switcher control on the map lists exactly these as base layers. The layer
  that is active at first, that is the layer on the map after construction, is the
  streets layer of that mapping when the configuration has no \<^verbatim>\<open>layers\<close> property;
  when it has one, the layers of the caller are put on the map instead.
\<close>

theorem base_layers_and_active_layer:
  "map fst (baseLayers (new_Map sel options)) =
     [''Streets'', ''Satelit'', ''Hybrid'', ''Basic'', ''Toner'', ''Mode Gelap''] \<and>
   map (\<lambda>(name, l). descr l) (baseLayers (new_Map sel options)) =
     map (createMapTilerLayer (mapTilerKey (new_Map sel options)))
       [''streets'', ''satellite'', ''hybrid'', ''basic'', ''toner'', ''dark''] \<and>
   distinct (map (\<lambda>(name, l). oid l) (baseLayers (new_Map sel options))) \<and>
   ctl_entries (layerControl (new_Map sel options)) =
     map (\<lambda>(name, l). (name, l, False)) (baseLayers (new_Map sel options)) \<and>
   ctl_on_map (layerControl (new_Map sel options)) \<and>
   (cfg_layers options = None \<longrightarrow>
      map_of (baseLayers (new_Map sel options)) ''Streets'' =
        Some (streetsLayer (mapTilerKey (new_Map sel options))) \<and>
      lm_layers (map_handle (new_Map sel options)) =
        [streetsLayer (mapTilerKey (new_Map sel options))]) \<and>
   (\<forall>ls. cfg_layers options = Some ls \<longrightarrow>
      lm_layers (map_handle (new_Map sel options)) = fold add_to ls [])"
proof -
  let ?key = "resolve_key initial_mapTilerKey options"
  have k: "?key \<noteq> []" by (rule key_new_Map_nonempty)
  have b: "baseLayers (new_Map sel options) =
     [(''Streets'', streetsLayer ?key), (''Satelit'', satelliteLayer ?key),
      (''Hybrid'', hybridLayer ?key), (''Basic'', basicLayer ?key),
      (''Toner'', tonerLayer ?key), (''Mode Gelap'', darkLayer ?key)]"
    using k by (simp add: baseLayers_new_Map base_layers_keyed)
  have 1: "map fst (baseLayers (new_Map sel options)) =
     [''Streets'', ''Satelit'', ''Hybrid'', ''Basic'', ''Toner'', ''Mode Gelap'']"
    by (simp add: b)
  have 2: "map (\<lambda>(name, l). descr l) (baseLayers (new_Map sel options)) =
     map (createMapTilerLayer (mapTilerKey (new_Map sel options)))
       [''streets'', ''satellite'', ''hybrid'', ''basic'', ''toner'', ''dark'']"
    by (simp add: b mapTilerKey_new_Map streetsLayer_def satelliteLayer_def hybridLayer_def
        basicLayer_def tonerLayer_def darkLayer_def descr_new_object)
  have 3: "distinct (map (\<lambda>(name, l). oid l) (baseLayers (new_Map sel options)))"
    using base_layer_identities [of ?key] by (simp add: b)
  have 4: "ctl_entries (layerControl (new_Map sel options)) =
     map (\<lambda>(name, l). (name, l, False)) (baseLayers (new_Map sel options))"
    by (simp add: layerControl_new_Map baseLayers_new_Map addTo_def control_layers_def)
  have 5: "ctl_on_map (layerControl (new_Map sel options))"
    by (simp add: layerControl_new_Map addTo_def)
  have 6: "map_of (baseLayers (new_Map sel options)) ''Streets'' =
        Some (streetsLayer (mapTilerKey (new_Map sel options)))"
    by (simp add: b mapTilerKey_new_Map)
  from 1 2 3 4 5 6 show ?thesis
    by (simp add: layers_new_Map_default layers_new_Map_caller)
qed

theorem base_layers_and_active_layer_witness:
  "lm_layers (map_handle (new_Map ''#map'' empty_config)) =
     [streetsLayer (mapTilerKey (new_Map ''#map'' empty_config))] \<and>
   lm_layers (map_handle (new_Map ''#map''
       (empty_config\<lparr>cfg_layers := Some [LayerObject (Given 0) osmLayer []]\<rparr>))) =
     [LayerObject (Given 0) osmLayer []]"
proof -
  have a: "cfg_layers empty_config = None" by (simp add: empty_config_def)
  have b: "cfg_layers (empty_config\<lparr>cfg_layers := Some [LayerObject (Given 0) osmLayer []]\<rparr>) =
             Some [LayerObject (Given 0) osmLayer []]"
    by simp
  from base_layers_and_active_layer [of "''#map''" empty_config] a
  have "lm_layers (map_handle (new_Map ''#map'' empty_config)) =
     [streetsLayer (mapTilerKey (new_Map ''#map'' empty_config))]"
    by blast
  moreover
  from base_layers_and_active_layer
         [of "''#map''" "empty_config\<lparr>cfg_layers := Some [LayerObject (Given 0) osmLayer []]\<rparr>"] b
  have "lm_layers (map_handle (new_Map ''#map''
       (empty_config\<lparr>cfg_layers := Some [LayerObject (Given 0) osmLayer []]\<rparr>))) =
     fold add_to [LayerObject (Given 0) osmLayer []] []"
    by blast
  ultimately show ?thesis by simp
qed

text \<open>
  A configuration whose \<^verbatim>\<open>layers\<close> property is the empty list: the key is present and
  no layer at all is on the map.
\<close>

theorem keyed_instance_without_active_layer:
  "mapTilerKey (new_Map ''#map'' (empty_config\<lparr>cfg_layers := Some []\<rparr>)) \<noteq> [] \<and>
   lm_layers (map_handle (new_Map ''#map'' (empty_config\<lparr>cfg_layers := Some []\<rparr>))) = []"
  using key_new_Map_nonempty [of "empty_config\<lparr>cfg_layers := Some []\<rparr>"]
  by (simp add: layers_new_Map_caller mapTilerKey_new_Map)

text \<open>
  Claim C10, amended. For every configuration the key of a new instance is a non-empty
  string: it is the built-in key unless the configuration holds a non-empty key, which
  then replaces it. So no instance has the single OpenStreetMap entry: each has the six
  base layers. The streets layer is the layer on the map after construction whenever
  the configuration has no \<^verbatim>\<open>layers\<close> property.
\<close>

theorem key_always_present:
  "mapTilerKey (new_Map sel options) \<noteq> [] \<and>
   mapTilerKey (new_Map sel options) =
     (case cfg_mapTilerKey options of
        Some k \<Rightarrow> if k = [] then initial_mapTilerKey else k
      | None \<Rightarrow> initial_mapTilerKey) \<and>
   baseLayers (new_Map sel options) \<noteq> [(''OpenStreetMap'', osmLayer_object)] \<and>
   length (baseLayers (new_Map sel options)) = 6 \<and>
   map fst (baseLayers (new_Map sel options)) =
     [''Streets'', ''Satelit'', ''Hybrid'', ''Basic'', ''Toner'', ''Mode Gelap''] \<and>
   (cfg_layers options = None \<longrightarrow>
      lm_layers (map_handle (new_Map sel options)) =
        [streetsLayer (mapTilerKey (new_Map sel options))] \<and>
      descr (streetsLayer (mapTilerKey (new_Map sel options))) =
        createMapTilerLayer (mapTilerKey (new_Map sel options)) ''streets'')"
proof -
  have k: "resolve_key initial_mapTilerKey options \<noteq> []"
    by (rule key_new_Map_nonempty)
  have e: "resolve_key initial_mapTilerKey options =
     (case cfg_mapTilerKey options of
        Some k \<Rightarrow> if k = [] then initial_mapTilerKey else k
      | None \<Rightarrow> initial_mapTilerKey)"
    by (simp add: resolve_key_def split: option.splits)
  have b: "baseLayers (new_Map sel options) =
             base_layers (resolve_key initial_mapTilerKey options)"
    by (rule baseLayers_new_Map)
  have d: "descr (streetsLayer (mapTilerKey (new_Map sel options))) =
        createMapTilerLayer (mapTilerKey (new_Map sel options)) ''streets''"
    by (simp add: streetsLayer_def descr_new_object)
  from k e d show ?thesis
    by (simp add: b mapTilerKey_new_Map base_layers_keyed layers_new_Map_default)
qed

theorem key_always_present_witness:
  "lm_layers (map_handle (new_Map ''#map'' empty_config)) =
     [streetsLayer (mapTilerKey (new_Map ''#map'' empty_config))] \<and>
   descr (streetsLayer (mapTilerKey (new_Map ''#map'' empty_config))) =
     createMapTilerLayer (mapTilerKey (new_Map ''#map'' empty_config)) ''streets''"
proof -
  have a: "cfg_layers empty_config = None" by (simp add: empty_config_def)
  from key_always_present [of "''#map''" empty_config] a
  show ?thesis by blast
qed

section \<open>The options the engine receives\<close>




section \<open>Construction through \<^verbatim>\<open>build\<close>\<close>

lemma getCurrentPosition_fails:
  "getCurrentPosition Unsupported = Rejected (Message ''Geolocation API unsupported'')"
  "getCurrentPosition (HostFails e) = Rejected (PositionError e)"
  by (simp_all add: getCurrentPosition_def isGeolocationAvailable_def)

text \<open>
  Claim C2. Let the configuration ask for geolocation (\<^verbatim>\<open>locate\<close> is true) and give no
  center, so that the position query is made, and let the query fail: the host has no
  geolocation capability, or it reports an error (permission denied, position
  unavailable, timeout). Then \<^verbatim>\<open>build\<close> resolves, with an instance whose map is
  centered at the default coordinate (-6.2, 106.816666), and it does not reject.
  The map factory of the engine is taken to accept the container.
\<close>

theorem build_survives_geolocation_failure:
  assumes "cfg_center options = None" and "cfg_locate options = Some True"
    and "host = Unsupported \<or> host = HostFails e"
  shows "fst (build host selector options) =
           Resolved (new_Map selector (options\<lparr>cfg_center := Some jakartaCoordinate\<rparr>)) \<and>
         lm_center (map_handle (new_Map selector (options\<lparr>cfg_center := Some jakartaCoordinate\<rparr>))) =
           Some (- 6.2, 106.816666) \<and>
         getCenter (new_Map selector (options\<lparr>cfg_center := Some jakartaCoordinate\<rparr>)) =
           Inr \<lparr>latitude = - 6.2, longitude = 106.816666\<rparr> \<and>
         (\<forall>r. fst (build host selector options) \<noteq> Rejected r)"
proof -
  from assms(3) obtain r where r: "getCurrentPosition host = Rejected r"
    using getCurrentPosition_fails by blast
  with assms(1,2)
  have b: "fst (build host selector options) =
           Resolved (new_Map selector (options\<lparr>cfg_center := Some jakartaCoordinate\<rparr>))"
    by (simp add: build_def)
  have c: "lm_center (map_handle (new_Map selector (options\<lparr>cfg_center := Some jakartaCoordinate\<rparr>))) =
           Some (- 6.2, 106.816666)"
    by (simp add: center_new_Map jakartaCoordinate_def)
  from c have g: "getCenter (new_Map selector (options\<lparr>cfg_center := Some jakartaCoordinate\<rparr>)) =
           Inr \<lparr>latitude = - 6.2, longitude = 106.816666\<rparr>"
    by (simp add: getCenter_def)
  from b c g show ?thesis by simp
qed

theorem build_survives_geolocation_failure_witness:
  "fst (build (HostFails PermissionDenied) ''#map'' (empty_config\<lparr>cfg_locate := Some True\<rparr>)) =
     Resolved (new_Map ''#map''
       (empty_config\<lparr>cfg_locate := Some True, cfg_center := Some jakartaCoordinate\<rparr>)) \<and>
   getCenter (new_Map ''#map''
       (empty_config\<lparr>cfg_locate := Some True, cfg_center := Some jakartaCoordinate\<rparr>)) =
     Inr \<lparr>latitude = - 6.2, longitude = 106.816666\<rparr>"
proof -
  have a: "cfg_center (empty_config\<lparr>cfg_locate := Some True\<rparr>) = None"
    by (simp add: empty_config_def)
  have b: "cfg_locate (empty_config\<lparr>cfg_locate := Some True\<rparr>) = Some True"
    by simp
  have c: "HostFails PermissionDenied = Unsupported \<or>
           HostFails PermissionDenied = HostFails PermissionDenied"
    by simp
  from build_survives_geolocation_failure [OF a b c, of "''#map''"]
  show ?thesis by simp
qed

section \<open>The camera\<close>

lemma changeCamera_center:
  "getCenter (changeCamera c z this) = Inr \<lparr>latitude = fst c, longitude = snd c\<rparr>"
  by (simp add: changeCamera_def getCenter_def setView_def latLng_def split: option.splits)

lemma changeCamera_zoom:
  "lm_zoom (map_handle (changeCamera c None this)) = zoom this"
  "z \<noteq> 0 \<Longrightarrow> lm_zoom (map_handle (changeCamera c (Some z) this)) = z"
  "lm_zoom (map_handle (changeCamera c (Some 0) this)) = zoom this"
  by (simp_all add: changeCamera_def setView_def)

text \<open>
  Claim C5. At the zoom level 0 the code departs from the claim: \<^verbatim>\<open>!zoomLevel\<close> holds
  for 0, so \<^verbatim>\<open>changeCamera([10, 20], 0)\<close> on an instance with the default zoom field
  asks the engine for zoom 5, not for the zoom level that was given. The constructor
  does take a zoom of 0 from its configuration. The map is centered at the coordinate
  all the same.
\<close>

theorem changeCamera_zoom_zero:
  "lm_zoom (map_handle (changeCamera (10, 20) (Some 0) (new_Map ''#map'' empty_config))) = 5 \<and>
   zoom (new_Map ''#map'' (empty_config\<lparr>cfg_zoom := Some 0\<rparr>)) = 0 \<and>
   getCenter (changeCamera (10, 20) (Some 0) (new_Map ''#map'' empty_config)) =
     Inr \<lparr>latitude = 10, longitude = 20\<rparr>"
  by (simp add: changeCamera_zoom changeCamera_center zoom_new_Map resolve_zoom_def
      empty_config_def initial_zoom_def)

section \<open>The arguments of \<^verbatim>\<open>addMarker\<close>\<close>

lemma has_content: "has_property ''content'' (JObj ps) = (''content'' \<in> fst ` set ps)"
  by (simp add: object_prototype_names_def)

lemma bindPopup_newMarker:
  "bindPopup (newMarker d c mo) p =
     Marker c (spread [(''icon'', Engine (createIcon d JUndefined))]
                 (map (\<lambda>(k, v). (k, Plain v)) (own_props mo))) (Some p)"
  by (simp add: newMarker_def marker_def)

text \<open>
  \<^verbatim>\<open>null\<close> passed for \<^verbatim>\<open>markerOptions\<close> is a supplied value that is not a structured
  object, and the call returns a marker.
\<close>

theorem addMarker_accepts_null_markerOptions:
  "JNull \<noteq> JUndefined \<and> \<not> is_object JNull \<and>
   \<not> isl (addMarker [] (10, 20) JNull JNull (new_Map ''#map'' empty_config))"
  by (simp add: addMarker_def Let_def)

text \<open>
  Claim C3, amended. For every coordinate and every supplied \<^verbatim>\<open>markerOptions\<close> other
  than \<^verbatim>\<open>null\<close> that is not a structured object (a boolean, a number, a string, a
  symbol, a function), \<^verbatim>\<open>addMarker\<close> throws the error that \<^verbatim>\<open>markerOptions\<close> must be
  an object, and no marker was constructed before. For an object, for \<^verbatim>\<open>null\<close> and for an omitted
  argument that error is not thrown.
\<close>

theorem addMarker_markerOptions_check:
  "(mo \<noteq> JUndefined \<and> mo \<noteq> JNull \<and> \<not> is_object mo \<longrightarrow>
      addMarker d c mo po this = Inl (Thrown ''markerOptions must be an object'' [])) \<and>
   (mo = JUndefined \<or> mo = JNull \<or> is_object mo \<longrightarrow>
      (\<forall>created. addMarker d c mo po this \<noteq>
         Inl (Thrown ''markerOptions must be an object'' created)))"
  by (cases mo) (simp_all add: addMarker_def Let_def)

theorem addMarker_markerOptions_check_witness:
  "addMarker [] (10, 20) (JStr ''not-an-object'') JNull (new_Map ''#map'' empty_config) =
     Inl (Thrown ''markerOptions must be an object'' []) \<and>
   addMarker [] (10, 20) (JObj []) JNull (new_Map ''#map'' empty_config) \<noteq>
     Inl (Thrown ''markerOptions must be an object'' [])"
proof -
  have a: "JStr ''not-an-object'' \<noteq> JUndefined \<and> JStr ''not-an-object'' \<noteq> JNull \<and>
           \<not> is_object (JStr ''not-an-object'')"
    by simp
  have b: "JObj [] = JUndefined \<or> JObj [] = JNull \<or> is_object (JObj [])"
    by simp
  from addMarker_markerOptions_check
         [of "JStr ''not-an-object''" "[]" "(10, 20)" JNull "new_Map ''#map'' empty_config"] a
  have "addMarker [] (10, 20) (JStr ''not-an-object'') JNull (new_Map ''#map'' empty_config) =
     Inl (Thrown ''markerOptions must be an object'' [])"
    by blast
  moreover
  from addMarker_markerOptions_check
         [of "JObj []" "[]" "(10, 20)" JNull "new_Map ''#map'' empty_config"] b
  have "addMarker [] (10, 20) (JObj []) JNull (new_Map ''#map'' empty_config) \<noteq>
     Inl (Thrown ''markerOptions must be an object'' [])"
    by blast
  ultimately show ?thesis by simp
qed

text \<open>
  The empty string passed for \<^verbatim>\<open>popupOptions\<close> is a supplied value that is not a
  structured object, and the call returns a marker.
\<close>

theorem addMarker_ignores_falsy_popupOptions:
  "JStr [] \<noteq> JUndefined \<and> JStr [] \<noteq> JNull \<and> \<not> is_object (JStr []) \<and>
   \<not> isl (addMarker [] (10, 20) (JObj []) (JStr []) (new_Map ''#map'' empty_config))"
  by (simp add: addMarker_def Let_def)

text \<open>
  Claim C4, amended. For every coordinate and object \<^verbatim>\<open>markerOptions\<close>, whenever
  \<^verbatim>\<open>popupOptions\<close> is truthy: \<^verbatim>\<open>addMarker\<close> throws the error that \<^verbatim>\<open>popupOptions\<close> must
  be an object if it is not a structured object, throws the error that the
  \<^verbatim>\<open>content\<close> property is missing if it is an object without that property, and
  otherwise returns the marker, a new layer object, with a popup bound that carries
  exactly that content, and adds it to the map. Both errors are thrown after the marker was constructed. A
  falsy \<^verbatim>\<open>popupOptions\<close> (\<^verbatim>\<open>null\<close>, \<^verbatim>\<open>undefined\<close>, \<^verbatim>\<open>false\<close>, 0, \<^verbatim>\<open>NaN\<close>, the empty
  string) counts as not supplied: the marker is added without a popup and nothing is
  thrown.
\<close>

theorem addMarker_popupOptions_check:
  assumes "is_object mo"
  shows "(truthy po \<and> \<not> is_object po \<longrightarrow>
            addMarker d c mo po this =
              Inl (Thrown ''popupOptions must be an object'' [newMarker d c mo])) \<and>
         (is_object po \<and> ''content'' \<notin> fst ` set (own_props po) \<longrightarrow>
            addMarker d c mo po this =
              Inl (Thrown ''popupOptions must include `content` property'' [newMarker d c mo])) \<and>
         (is_object po \<and> ''content'' \<in> fst ` set (own_props po) \<longrightarrow>
            addMarker d c mo po this =
              Inr (LayerObject (Made (layers_created this))
                     (bindPopup (newMarker d c mo)
                        (Popup [(''content'', get_property po ''content'')])) [],
                   this\<lparr>map_handle :=
                          addLayer
                            (LayerObject (Made (layers_created this))
                               (bindPopup (newMarker d c mo)
                                  (Popup [(''content'', get_property po ''content'')])) [])
                            (map_handle this),
                        layers_created := Suc (layers_created this)\<rparr>)) \<and>
         (\<not> truthy po \<longrightarrow>
            addMarker d c mo po this =
              Inr (LayerObject (Made (layers_created this)) (newMarker d c mo) [],
                   this\<lparr>map_handle :=
                          addLayer (LayerObject (Made (layers_created this)) (newMarker d c mo) [])
                            (map_handle this),
                        layers_created := Suc (layers_created this)\<rparr>))"
proof -
  from assms obtain ms where mo: "mo = JObj ms" by (cases mo) simp_all
  show ?thesis
    by (cases po)
      (simp_all add: mo addMarker_def added_marker_def Let_def has_content
        del: has_property.simps)
qed

lemma added_marker_on_map:
  assumes "Made (layers_created this) \<notin> oid ` set (lm_layers (map_handle this))"
  shows "fst (added_marker m this) \<in> set (lm_layers (map_handle (snd (added_marker m this))))"
  using assms by (simp add: added_marker_def addLayer_def)

theorem addMarker_popupOptions_check_witness:
  "addMarker [] (10, 20) (JObj []) (JStr ''x'') (new_Map ''#map'' empty_config) =
     Inl (Thrown ''popupOptions must be an object'' [newMarker [] (10, 20) (JObj [])]) \<and>
   addMarker [] (10, 20) (JObj []) (JObj []) (new_Map ''#map'' empty_config) =
     Inl (Thrown ''popupOptions must include `content` property'' [newMarker [] (10, 20) (JObj [])]) \<and>
   fst (projr (addMarker [] (10, 20) (JObj []) (JObj [(''content'', JStr ''x'')])
                 (new_Map ''#map'' empty_config))) =
     LayerObject (Made 9)
       (bindPopup (newMarker [] (10, 20) (JObj [])) (Popup [(''content'', JStr ''x'')])) []"
proof -
  have o: "is_object (JObj [])" by simp
  have a: "truthy (JStr ''x'') \<and> \<not> is_object (JStr ''x'')" by simp
  have b: "is_object (JObj []) \<and> ''content'' \<notin> fst ` set (own_props (JObj []))" by simp
  have c: "is_object (JObj [(''content'', JStr ''x'')]) \<and>
           ''content'' \<in> fst ` set (own_props (JObj [(''content'', JStr ''x'')]))"
    by simp
  from addMarker_popupOptions_check
         [OF o, of "JStr ''x''" "[]" "(10, 20)" "new_Map ''#map'' empty_config"] a
  have 1: "addMarker [] (10, 20) (JObj []) (JStr ''x'') (new_Map ''#map'' empty_config) =
     Inl (Thrown ''popupOptions must be an object'' [newMarker [] (10, 20) (JObj [])])"
    by blast
  from addMarker_popupOptions_check
         [OF o, of "JObj []" "[]" "(10, 20)" "new_Map ''#map'' empty_config"] b
  have 2: "addMarker [] (10, 20) (JObj []) (JObj []) (new_Map ''#map'' empty_config) =
     Inl (Thrown ''popupOptions must include `content` property'' [newMarker [] (10, 20) (JObj [])])"
    by blast
  from addMarker_popupOptions_check
         [OF o, of "JObj [(''content'', JStr ''x'')]" "[]" "(10, 20)" "new_Map ''#map'' empty_config"] c
  have 3: "fst (projr (addMarker [] (10, 20) (JObj []) (JObj [(''content'', JStr ''x'')])
             (new_Map ''#map'' empty_config))) =
     LayerObject (Made (layers_created (new_Map ''#map'' empty_config)))
       (bindPopup (newMarker [] (10, 20) (JObj []))
          (Popup [(''content'', get_property (JObj [(''content'', JStr ''x'')]) ''content'')])) []"
    by simp
  from 1 2 3 show ?thesis by (simp add: layers_created_new_Map)
qed

section \<open>Overlay registration and removal\<close>

lemma remove_from_detaches: "oid l \<notin> oid ` set (remove_from l ls)"
  by (cases l) auto

lemma remove_from_keeps:
  "oid l \<notin> oid ` set ls \<Longrightarrow> remove_from l ls = ls"
  by (cases l) simp

lemma removeLayer_detaches: "oid l \<notin> oid ` set (lm_layers (removeLayer l m))"
  by (simp add: removeLayer_def remove_from_detaches)

lemma rebuild_control_done:
  assumes "overlays_proto this = None"
  shows "rebuild_control this =
           Done (this\<lparr>layerControl :=
                        addTo (control_layers (baseLayers this) (overlays this)
                                 (controls_created this)),
                      controls_created := Suc (controls_created this)\<rparr>)"
  using assms by (simp add: rebuild_control_def Let_def)

lemma rebuild_control_beyond:
  assumes "overlays_proto this \<noteq> None"
  shows "rebuild_control this = Beyond (this\<lparr>layerControl := remove_control (layerControl this)\<rparr>)"
  using assms by (simp add: rebuild_control_def Let_def)

lemma overlays_get_after_set: "overlays_get (overlays_set name l this) name = LayerValue l"
  by (simp add: overlays_get_def overlays_set_def update_conv)

lemma overlays_get_layerControl:
  "overlays_get (this\<lparr>layerControl := c\<rparr>) name = overlays_get this name"
  by (simp add: overlays_get_def split: option.splits)

lemma overlays_get_addOverlayLayer:
  "overlays_get (snd (addOverlayLayer name l this)) name = LayerValue l"
  by (simp add: addOverlayLayer_def Let_def overlays_get_layerControl overlays_get_after_set)

lemma map_of_delete_update:
  "map_of (AList.delete name (AList.update name l ps)) = (map_of ps)(name := None)"
  by (rule ext) (simp add: delete_conv update_conv)

text \<open>
  For a name other than \<^verbatim>\<open>__proto__\<close>, on an instance whose overlay object has its
  original prototype, the two calls run to their end: the mapping is then the one
  before the calls without that name, the layer object is not on the map, and a new
  control is on the map.
\<close>

lemma add_then_remove_ordinary_name:
  assumes "name \<noteq> ''__proto__''" and "overlays_proto this = None"
  shows "\<exists>s. removeOverlayLayer name (snd (addOverlayLayer name l this)) = Done s \<and>
             name \<notin> fst ` set (overlays s) \<and>
             map_of (overlays s) = (map_of (overlays this))(name := None) \<and>
             oid l \<notin> oid ` set (lm_layers (map_handle s)) \<and>
             ctl_on_map (layerControl s) \<and>
             ctl_id (layerControl s) = controls_created this"
proof -
  let ?added = "snd (addOverlayLayer name l this)"
  let ?removed =
    "?added\<lparr>map_handle := removeLayer l (map_handle ?added),
             overlays := AList.delete name (overlays ?added)\<rparr>"
  have g: "overlays_get ?added name = LayerValue l"
    by (rule overlays_get_addOverlayLayer)
  have p: "overlays_proto ?removed = None"
    using assms by (simp add: addOverlayLayer_def Let_def overlays_set_def)
  have o: "overlays ?added = AList.update name l (overlays this)"
    using assms by (simp add: addOverlayLayer_def Let_def overlays_set_def)
  have c: "controls_created ?removed = controls_created this"
    using assms by (simp add: addOverlayLayer_def Let_def overlays_set_def)
  have r: "removeOverlayLayer name ?added = rebuild_control ?removed"
    using g by (simp add: removeOverlayLayer_def Let_def)
  let ?s = "?removed\<lparr>layerControl :=
                        addTo (control_layers (baseLayers ?removed) (overlays ?removed)
                                 (controls_created ?removed)),
                      controls_created := Suc (controls_created ?removed)\<rparr>"
  have d: "removeOverlayLayer name ?added = Done ?s"
    using rebuild_control_done [OF p] r by simp
  have 1: "name \<notin> fst ` set (overlays ?s)"
    by (simp add: o delete_keys flip: set_map)
  have 2: "map_of (overlays ?s) = (map_of (overlays this))(name := None)"
    by (simp add: o map_of_delete_update)
  have 3: "oid l \<notin> oid ` set (lm_layers (map_handle ?s))"
    using removeLayer_detaches [of l "map_handle ?added"] by simp
  have 4: "ctl_on_map (layerControl ?s)"
    by (simp add: addTo_def)
  have 5: "ctl_id (layerControl ?s) = controls_created this"
    using c by (simp add: addTo_def control_layers_def)
  from d 1 2 3 4 5 show ?thesis by blast
qed

text \<open>
  Claim C8. At the name \<^verbatim>\<open>__proto__\<close> the code departs from the claim. The assignment
  \<^verbatim>\<open>this.#overlays['__proto__'] = layer\<close> creates no key: it makes the layer the
  prototype of the overlay object. \<^verbatim>\<open>removeOverlayLayer('__proto__')\<close> then reads the
  layer back and removes it from the map and removes the control, but it does not run
  to its end: the new control is to be made from an overlay object that now inherits
  the members of the layer. The old control is off the map, and the lookup under the
  name, which found \<^verbatim>\<open>Object.prototype\<close> before the two calls, still finds the layer.
  For every other name the two calls do what the claim says
  (\<open>add_then_remove_ordinary_name\<close>).
\<close>

theorem add_then_remove_proto_name:
  "overlays_get (new_Map ''#map'' empty_config) ''__proto__'' = PrototypeObject \<and>
   overlays (snd (addOverlayLayer ''__proto__'' (LayerObject (Given 0) osmLayer [])
                    (new_Map ''#map'' empty_config))) = [] \<and>
   completed (removeOverlayLayer ''__proto__''
     (snd (addOverlayLayer ''__proto__'' (LayerObject (Given 0) osmLayer [])
             (new_Map ''#map'' empty_config)))) = None \<and>
   map_option (\<lambda>s. ctl_on_map (layerControl s))
     (stopped_at (removeOverlayLayer ''__proto__''
        (snd (addOverlayLayer ''__proto__'' (LayerObject (Given 0) osmLayer [])
                (new_Map ''#map'' empty_config))))) = Some False \<and>
   map_option (\<lambda>s. overlays_get s ''__proto__'')
     (stopped_at (removeOverlayLayer ''__proto__''
        (snd (addOverlayLayer ''__proto__'' (LayerObject (Given 0) osmLayer [])
                (new_Map ''#map'' empty_config))))) =
     Some (LayerValue (LayerObject (Given 0) osmLayer []))"
  by (simp add: new_Map_def constructor_def Let_def addOverlayLayer_def overlays_set_def
      removeOverlayLayer_def overlays_get_def rebuild_control_def remove_control_def)

lemma overlays_get_no_value:
  "overlays_get this name = NoValue \<longleftrightarrow>
     name \<notin> fst ` set (overlays this) \<and> overlays_proto this = None \<and>
     name \<notin> set object_prototype_names \<and> name \<noteq> ''__proto__''"
proof (cases "map_of (overlays this) name")
  case None
  then have "name \<notin> fst ` set (overlays this)"
    by (simp add: map_of_eq_None_iff)
  with None show ?thesis
    by (simp add: overlays_get_def split: option.splits)
next
  case (Some l)
  then have "name \<in> fst ` set (overlays this)"
    by (metis map_of_eq_None_iff option.distinct(1))
  with Some show ?thesis
    by (simp add: overlays_get_def split: option.splits)
qed

lemma removeOverlayLayer_ordinary_absent:
  assumes "name \<notin> fst ` set (overlays this)" and "overlays_proto this = None"
    and "name \<notin> set object_prototype_names" and "name \<noteq> ''__proto__''"
  shows "removeOverlayLayer name this = Done this"
proof -
  from assms have "overlays_get this name = NoValue"
    by (simp add: overlays_get_no_value)
  then show ?thesis
    by (simp add: removeOverlayLayer_def)
qed

text \<open>
  Claim C7. At a name that every object inherits the code departs from the claim. A
  new instance has no overlay, so \<^verbatim>\<open>toString\<close> is absent from the overlay mapping;
  yet \<^verbatim>\<open>this.#overlays['toString']\<close> is the inherited function, which is truthy, the
  block of \<^verbatim>\<open>removeOverlayLayer\<close> runs to its end, and the layer-switcher control is
  removed and replaced by a new one. For an absent name that is not inherited the call
  leaves the instance as it is (\<open>removeOverlayLayer_ordinary_absent\<close>).
\<close>

theorem removeOverlayLayer_inherited_name:
  "''toString'' \<notin> fst ` set (overlays (new_Map ''#map'' empty_config)) \<and>
   removeOverlayLayer ''toString'' (new_Map ''#map'' empty_config) \<noteq>
     Done (new_Map ''#map'' empty_config) \<and>
   ctl_id (layerControl (new_Map ''#map'' empty_config)) = 0 \<and>
   map_option (\<lambda>s. ctl_id (layerControl s))
     (completed (removeOverlayLayer ''toString'' (new_Map ''#map'' empty_config))) = Some 1"
  by (simp add: new_Map_def constructor_def Let_def removeOverlayLayer_def overlays_get_def
      object_prototype_names_def rebuild_control_def addTo_def control_layers_def
      remove_control_def)

end
